theory Spec2Isabelle
  imports Complex_Main
begin

section \<open>Numbers, the page and the module's variables\<close>

text \<open>
  The Parallax controller of \<^verbatim>\<open>src/unnamed/part_000\<close> is embedded function by function.
  A JavaScript number is a rational, or \<open>None\<close> for a value that is not a finite number
  (\<^verbatim>\<open>undefined\<close> read as a number, \<^verbatim>\<open>NaN\<close>, and the quotient by zero): every comparison with
  it is false and every arithmetic operation on it yields it again. The rounding of
  double-precision arithmetic is not modelled.
\<close>

type_synonym num = "rat option"

definition nadd :: "num \<Rightarrow> num \<Rightarrow> num" where
  "nadd a b = (case a of None \<Rightarrow> None | Some x \<Rightarrow> (case b of None \<Rightarrow> None | Some y \<Rightarrow> Some (x + y)))"

definition nsub :: "num \<Rightarrow> num \<Rightarrow> num" where
  "nsub a b = (case a of None \<Rightarrow> None | Some x \<Rightarrow> (case b of None \<Rightarrow> None | Some y \<Rightarrow> Some (x - y)))"

definition nmul :: "num \<Rightarrow> num \<Rightarrow> num" where
  "nmul a b = (case a of None \<Rightarrow> None | Some x \<Rightarrow> (case b of None \<Rightarrow> None | Some y \<Rightarrow> Some (x * y)))"

definition ndiv :: "num \<Rightarrow> num \<Rightarrow> num" where
  "ndiv a b = (case a of None \<Rightarrow> None
     | Some x \<Rightarrow> (case b of None \<Rightarrow> None | Some y \<Rightarrow> if y = 0 then None else Some (x / y)))"

definition ngt :: "num \<Rightarrow> num \<Rightarrow> bool" where
  "ngt a b = (case a of None \<Rightarrow> False | Some x \<Rightarrow> (case b of None \<Rightarrow> False | Some y \<Rightarrow> x > y))"

definition nlt :: "num \<Rightarrow> num \<Rightarrow> bool" where
  "nlt a b = (case a of None \<Rightarrow> False | Some x \<Rightarrow> (case b of None \<Rightarrow> False | Some y \<Rightarrow> x < y))"

text \<open>A DOM node is a reference; \<^verbatim>\<open>null\<close> and \<^verbatim>\<open>undefined\<close> references are \<open>None\<close>.\<close>

type_synonym node = nat

datatype exn = TypeError | HierarchyRequestError | NotFoundError

datatype jsval = JUndefined | JNull | JBool bool | JNum rat | JObject

datatype styleProp =
  WebkitTransform | MsTransform | Transform | StyleTop | StyleLeft | StyleWidth | StyleHeight
  | PointerEvents

text \<open>
  The strings written to style properties, kept structured: \<^verbatim>\<open>n + 'px'\<close>,
  \<^verbatim>\<open>'translatey(' + n + 'px)'\<close>, \<^verbatim>\<open>'translate3d(' + n + 'px, 0, 0)'\<close>, \<^verbatim>\<open>''\<close> and a keyword.
\<close>

datatype cssval = Px num | TranslateY num | Translate3d num | Empty | Keyword string

datatype eventName =
  EvScroll | EvIndexEditEnabled | EvIndexEditDisabled | EvIndexEditDeleted | EvIndexEditReorder

datatype callback =
  SyncParallaxCb | ScrollCallbackCb | ScrollTimeoutCb | HandleScroll
  | HandleIndexEditEnabled | HandleIndexEditDisabled | HandleIndexEditDeleted
  | HandleIndexEditReorder | TweakWatchCb

datatype darwinVar = DarwinUndefined | DarwinNull | DarwinInstance

datatype selector =
  HasAttr string | AttrEq string string | Tag string | Class string
  | Neg selector | Conj selector selector

record rect =
  rect_top :: rat
  rect_right :: rat
  rect_bottom :: rat
  rect_left :: rat

text \<open>What a call reads from the browser and from the configuration service.\<close>

record env =
  getBoundingClientRect :: "node \<Rightarrow> rect"
  offsetWidth :: "node \<Rightarrow> rat"
  offsetHeight :: "node \<Rightarrow> rat"
  docScrollTop :: rat
  bodyScrollTop :: rat
  pageYOffset :: rat
  innerHeight :: rat
  tweakValue :: "string \<Rightarrow> string"
  parseFloat :: "string \<Rightarrow> num"
  body :: node
  documentElement :: node

text \<open>An entry of \<^verbatim>\<open>matrix\<close>; the geometry is \<^verbatim>\<open>undefined\<close> until the first refresh.\<close>

record item =
  originalNode :: node
  mediaWrapper :: node
  mediaElement :: node
  focalPoint :: num
  parallaxItem :: "node option"
  top' :: num
  right :: num
  bottom :: num
  left :: num
  width :: num
  height :: num

text \<open>
  The closure variables of \<^verbatim>\<open>Parallax\<close>, the DOM (parent pointers and ordered child lists,
  with a bound on the depth that a tree walk descends), the style assignments and image
  loads in the order they were made, and what is registered with the browser.
\<close>

record state =
  darwin :: darwinVar
  scrolling :: bool
  scrollTimeout :: "nat option"
  windowHeight :: num
  matrix :: "item list"
  isEditingIndex :: bool
  parentNode :: "node \<Rightarrow> node option"
  childNodes :: "node \<Rightarrow> node list"
  tagName :: "node \<Rightarrow> string"
  classList :: "node \<Rightarrow> string list"
  attributes :: "node \<Rightarrow> (string \<times> string) list"
  depthBound :: nat
  styleWrites :: "(node \<times> styleProp \<times> cssval) list"
  imageLoads :: "node list"
  listeners :: "(eventName \<times> callback) list"
  rafQueue :: "callback list"
  timers :: "(nat \<times> callback) list"
  nextTimerId :: nat
  resizeEndCallbacks :: "callback list"
  tweakWatchers :: "(string list \<times> callback) list"
  darwinObserving :: bool

text \<open>A call returns, or throws with the state as the statements before the throw left it.\<close>

datatype 'a outcome = Done 'a | Threw exn state

text \<open>Observers of an outcome: whether the call returned, what it threw, and the state it left.\<close>

definition returned :: "'a outcome \<Rightarrow> bool" where
  "returned r = (case r of Done _ \<Rightarrow> True | Threw _ _ \<Rightarrow> False)"


definition finalState :: "state outcome \<Rightarrow> state" where
  "finalState r = (case r of Done s \<Rightarrow> s | Threw _ t \<Rightarrow> t)"

section \<open>Geometry Tracker\<close>

text \<open>\<^verbatim>\<open>document.documentElement.scrollTop || document.body.scrollTop\<close>\<close>

definition pageScrollTop :: "env \<Rightarrow> rat" where
  "pageScrollTop e = (if docScrollTop e \<noteq> 0 then docScrollTop e else bodyScrollTop e)"

text \<open>
  \<^verbatim>\<open>updateMatrixItem\<close>: the \<^verbatim>\<open>for ... in\<close> loop visits top, left, width and height and runs
  the same body at the first one that differs.
\<close>

definition updateMatrixItem :: "env \<Rightarrow> item \<Rightarrow> bool \<times> item" where
  "updateMatrixItem e matrixItem =
    (let scrollTop = pageScrollTop e;
         rect = getBoundingClientRect e (originalNode matrixItem);
         cur_top = rect_top rect + scrollTop;
         cur_left = rect_left rect;
         cur_width = offsetWidth e (originalNode matrixItem);
         cur_height = offsetHeight e (originalNode matrixItem)
     in if top' matrixItem \<noteq> Some cur_top \<or> left matrixItem \<noteq> Some cur_left
           \<or> width matrixItem \<noteq> Some cur_width \<or> height matrixItem \<noteq> Some cur_height
        then (True, matrixItem\<lparr>top' := Some cur_top, right := Some (rect_right rect),
                bottom := Some (rect_bottom rect + scrollTop), left := Some cur_left,
                width := Some cur_width, height := Some cur_height\<rparr>)
        else (False, matrixItem))"

fun updateAllMatrixItems :: "env \<Rightarrow> item list \<Rightarrow> bool \<times> item list" where
  "updateAllMatrixItems e [] = (False, [])"
| "updateAllMatrixItems e (matrixItem # rest) =
    (let (updated, matrixItem') = updateMatrixItem e matrixItem;
         (didUpdate, rest') = updateAllMatrixItems e rest
     in (updated \<or> didUpdate, matrixItem' # rest'))"

section \<open>The DOM operations the module calls\<close>

text \<open>The node and its descendants in document order, down to the depth bound.\<close>

fun subtree :: "nat \<Rightarrow> (node \<Rightarrow> node list) \<Rightarrow> node \<Rightarrow> node list" where
  "subtree 0 kids n = [n]"
| "subtree (Suc k) kids n = n # concat (map (subtree k kids) (kids n))"

definition getAttribute :: "state \<Rightarrow> node \<Rightarrow> string \<Rightarrow> string option" where
  "getAttribute s n a = map_of (attributes s n) a"

fun matches :: "state \<Rightarrow> selector \<Rightarrow> node \<Rightarrow> bool" where
  "matches s (HasAttr a) n = (getAttribute s n a \<noteq> None)"
| "matches s (AttrEq a v) n = (getAttribute s n a = Some v)"
| "matches s (Tag t) n = (tagName s n = t)"
| "matches s (Class c) n = (c \<in> set (classList s n))"
| "matches s (Neg q) n = (\<not> matches s q n)"
| "matches s (Conj q r) n = (matches s q n \<and> matches s r n)"

definition querySelectorAll :: "state \<Rightarrow> node \<Rightarrow> selector \<Rightarrow> node list" where
  "querySelectorAll s n q = filter (matches s q) (tl (subtree (depthBound s) (childNodes s) n))"

definition querySelector :: "state \<Rightarrow> node \<Rightarrow> selector \<Rightarrow> node option" where
  "querySelector s n q = find (matches s q) (tl (subtree (depthBound s) (childNodes s) n))"

text \<open>\<^verbatim>\<open>a.contains(b)\<close>: \<open>b\<close> is \<open>a\<close> or one of its descendants.\<close>

definition contains :: "state \<Rightarrow> node \<Rightarrow> node \<Rightarrow> bool" where
  "contains s a b = (b \<in> set (subtree (depthBound s) (childNodes s) a))"

definition detach :: "node \<Rightarrow> state \<Rightarrow> state" where
  "detach c s =
    (case parentNode s c of
       None \<Rightarrow> s
     | Some old \<Rightarrow> s\<lparr>parentNode := (parentNode s)(c := None),
                      childNodes := (childNodes s)(old := removeAll c (childNodes s old))\<rparr>)"

text \<open>
  \<^verbatim>\<open>p.appendChild(c)\<close> moves \<open>c\<close> from where it is to the end of the children of \<open>p\<close>, and
  throws when \<open>p\<close> is \<open>c\<close> or lies inside it.
\<close>

definition appendChild :: "node \<Rightarrow> node \<Rightarrow> state \<Rightarrow> state outcome" where
  "appendChild p c s =
    (if contains s c p then Threw HierarchyRequestError s
     else let s1 = detach c s
          in Done (s1\<lparr>parentNode := (parentNode s1)(c := Some p),
                       childNodes := (childNodes s1)(p := childNodes s1 p @ [c])\<rparr>))"

definition removeChild :: "node \<Rightarrow> node \<Rightarrow> state \<Rightarrow> state outcome" where
  "removeChild p c s =
    (if parentNode s c = Some p then Done (detach c s) else Threw NotFoundError s)"

definition classListAdd :: "node \<Rightarrow> string \<Rightarrow> state \<Rightarrow> state" where
  "classListAdd n c s =
    (if c \<in> set (classList s n) then s
     else s\<lparr>classList := (classList s)(n := classList s n @ [c])\<rparr>)"

definition setStyle :: "node \<Rightarrow> styleProp \<Rightarrow> cssval \<Rightarrow> state \<Rightarrow> state" where
  "setStyle n p v s = s\<lparr>styleWrites := styleWrites s @ [(n, p, v)]\<rparr>"

text \<open>The three assignments every transform write makes, in the source's order.\<close>

definition setTransform :: "node \<Rightarrow> cssval \<Rightarrow> state \<Rightarrow> state" where
  "setTransform n v s = setStyle n Transform v (setStyle n MsTransform v (setStyle n WebkitTransform v s))"

section \<open>Mode Resolver\<close>

definition isParallaxEnabled :: "env \<Rightarrow> state \<Rightarrow> bool" where
  "isParallaxEnabled e s =
    (if isEditingIndex s then False else tweakValue e ''tweak-overlay-parallax-enabled'' = ''true'')"

section \<open>Building the matrix\<close>

fun splitOn :: "char \<Rightarrow> string \<Rightarrow> string list" where
  "splitOn c [] = [[]]"
| "splitOn c (x # xs) =
    (if x = c then [] # splitOn c xs
     else (case splitOn c xs of [] \<Rightarrow> [[x]] | w # ws \<Rightarrow> (x # w) # ws))"

text \<open>
  The callback of \<^verbatim>\<open>nodes.map\<close> in \<^verbatim>\<open>initParallax\<close>. A property read on a \<^verbatim>\<open>null\<close> wrapper or
  media element throws; \<^verbatim>\<open>split(',')[1]\<close> of a string without a comma is \<^verbatim>\<open>undefined\<close>, which
  \<^verbatim>\<open>parseFloat\<close> turns into \<^verbatim>\<open>NaN\<close>.
\<close>

definition initItem :: "env \<Rightarrow> state \<Rightarrow> node \<Rightarrow> exn + item" where
  "initItem e s oNode =
    (case querySelector s oNode (HasAttr ''data-parallax-image-wrapper'') of
       None \<Rightarrow> Inl TypeError
     | Some mWrapper \<Rightarrow>
        (case (case querySelector s mWrapper (Conj (Tag ''img'') (Neg (Class ''custom-fallback-image''))) of
                 Some img \<Rightarrow> Some img
               | None \<Rightarrow> querySelector s mWrapper (Conj (Tag ''div'') (Class ''sqs-video-background''))) of
           None \<Rightarrow> Inl TypeError
         | Some mElement \<Rightarrow>
            (let focalPointString = getAttribute s mElement ''data-image-focal-point'';
                 fPoint =
                   (case focalPointString of
                      None \<Rightarrow> Some (1 / 2)
                    | Some str \<Rightarrow>
                       if str = [] then Some (1 / 2)
                       else (case splitOn CHR '','' str of
                               _ # second # _ \<Rightarrow> parseFloat e second
                             | _ \<Rightarrow> None))
             in Inr \<lparr>originalNode = oNode, mediaWrapper = mWrapper,
                     mediaElement = mElement, focalPoint = fPoint,
                     parallaxItem = None, top' = None, right = None, bottom = None,
                     left = None, width = None, height = None\<rparr>)))"

fun mapItems :: "(node \<Rightarrow> exn + item) \<Rightarrow> node list \<Rightarrow> exn + item list" where
  "mapItems f [] = Inr []"
| "mapItems f (n # ns) =
    (case f n of
       Inl x \<Rightarrow> Inl x
     | Inr it \<Rightarrow> (case mapItems f ns of Inl x \<Rightarrow> Inl x | Inr its \<Rightarrow> Inr (it # its)))"

definition initParallax :: "env \<Rightarrow> node \<Rightarrow> state \<Rightarrow> state outcome" where
  "initParallax e element s =
    (let isOriginalElement = (getAttribute s element ''data-parallax-original-element'' \<noteq> None);
         originalDOMNodes = querySelectorAll s element (HasAttr ''data-parallax-original-element'');
         nodes = (if isOriginalElement then [element] else originalDOMNodes)
     in case mapItems (initItem e s) nodes of
          Inl x \<Rightarrow> Threw x s
        | Inr m \<Rightarrow> Done (s\<lparr>matrix := m\<rparr>))"

section \<open>Transform Engine\<close>

text \<open>
  The callback of \<^verbatim>\<open>matrix.forEach\<close> in \<^verbatim>\<open>scroll\<close>; \<open>parallaxOffset\<close> is the module constant
  500. A style write on an absent \<^verbatim>\<open>parallaxItem\<close> throws after the media element was written.
\<close>

definition parallaxOffset :: rat where
  "parallaxOffset = 500"

definition scrollItem :: "rat \<Rightarrow> item \<Rightarrow> state \<Rightarrow> state outcome" where
  "scrollItem scrollTop matrixItem s =
    (if ngt (nadd (Some scrollTop) (windowHeight s)) (top' matrixItem)
        \<and> nlt (Some scrollTop) (bottom matrixItem)
     then
       (let focalPointVertical = nmul (height matrixItem) (focalPoint matrixItem);
            parallaxProportion =
              nsub (Some 1)
                (ndiv (nsub (nadd (top' matrixItem) focalPointVertical) (Some scrollTop))
                      (windowHeight s));
            elementTransformString = TranslateY (nmul parallaxProportion (Some parallaxOffset));
            s1 = setTransform (mediaElement matrixItem) elementTransformString s;
            parallaxItemTransformString = TranslateY (Some (- 1 * scrollTop))
        in case parallaxItem matrixItem of
             None \<Rightarrow> Threw TypeError s1
           | Some p \<Rightarrow> Done (setTransform p parallaxItemTransformString s1))
     else
       (let parallaxItemTransformString =
              Translate3d (nsub (nmul (Some (- 1)) (width matrixItem)) (left matrixItem))
        in case parallaxItem matrixItem of
             None \<Rightarrow> Threw TypeError s
           | Some p \<Rightarrow> Done (setTransform p parallaxItemTransformString s)))"

fun forEach :: "('a \<Rightarrow> state \<Rightarrow> state outcome) \<Rightarrow> 'a list \<Rightarrow> state \<Rightarrow> state outcome" where
  "forEach f [] s = Done s"
| "forEach f (x # xs) s =
    (case f x s of Threw err t \<Rightarrow> Threw err t | Done s1 \<Rightarrow> forEach f xs s1)"

text \<open>\<^verbatim>\<open>scroll\<close>: a zero argument is falsy and is replaced by the page's scroll offset.\<close>

definition scroll :: "env \<Rightarrow> rat \<Rightarrow> state \<Rightarrow> state outcome" where
  "scroll e scrollTopArg s =
    (let scrollTop = (if scrollTopArg \<noteq> 0 then scrollTopArg else pageScrollTop e)
     in if \<not> isParallaxEnabled e s then Done s
        else forEach (scrollItem scrollTop) (matrix s) s)"

section \<open>DOM Relocator\<close>

text \<open>
  \<^verbatim>\<open>loadImage\<close>: \<^verbatim>\<open>isVideoBackground && videoBackgroundFallbackImage || isMediaElementImage && mediaElement\<close>,
  then the call to the image loader, recorded in \<open>imageLoads\<close>.
\<close>

definition loadImage :: "node \<Rightarrow> state \<Rightarrow> state" where
  "loadImage mElement s =
    (let isVideoBackground = (''sqs-video-background'' \<in> set (classList s mElement));
         videoBackgroundFallbackImage =
           querySelector s mElement (Conj (Tag ''img'') (Class ''custom-fallback-image''));
         isMediaElementImage = (getAttribute s mElement ''data-src'' \<noteq> None);
         image = (case (if isVideoBackground then videoBackgroundFallbackImage else None) of
                    Some img \<Rightarrow> Some img
                  | None \<Rightarrow> if isMediaElementImage then Some mElement else None)
     in case image of None \<Rightarrow> s | Some img \<Rightarrow> s\<lparr>imageLoads := imageLoads s @ [img]\<rparr>)"

text \<open>
  Lines 255 to 263, for the item at index \<open>i\<close> of \<^verbatim>\<open>matrix\<close>: the slot is looked up by the
  original node's \<^verbatim>\<open>data-parallax-id\<close> (the text \<^verbatim>\<open>null\<close> when the attribute is absent), stored in
  the item, and only then dereferenced.
\<close>

definition relocateToOverlay :: "node option \<Rightarrow> nat \<Rightarrow> state \<Rightarrow> state outcome" where
  "relocateToOverlay parallaxHost i s =
    (let it = matrix s ! i;
         ident = (case getAttribute s (originalNode it) ''data-parallax-id'' of
                    None \<Rightarrow> ''null'' | Some v \<Rightarrow> v)
     in case parallaxHost of
          None \<Rightarrow> Threw TypeError s
        | Some host \<Rightarrow>
           (let found = querySelector s host
                          (Conj (HasAttr ''data-parallax-item'') (AttrEq ''data-parallax-id'' ident));
                s1 = s\<lparr>matrix := (matrix s)[i := it\<lparr>parallaxItem := found\<rparr>]\<rparr>
            in case found of
                 None \<Rightarrow> Threw TypeError s1
               | Some p \<Rightarrow> appendChild p (mediaWrapper it) s1))"

text \<open>The branch of the filter callback taken when parallax is enabled (lines 250 to 280).\<close>

definition syncEnabled :: "node option \<Rightarrow> nat \<Rightarrow> state \<Rightarrow> state outcome" where
  "syncEnabled parallaxHost i s =
    (let it = matrix s ! i
     in case (if parentNode s (mediaWrapper it) = Some (originalNode it)
              then relocateToOverlay parallaxHost i s else Done s) of
          Threw x t \<Rightarrow> Threw x t
        | Done s1 \<Rightarrow>
           (case parallaxItem (matrix s1 ! i) of
              None \<Rightarrow> Threw TypeError s1
            | Some p \<Rightarrow>
               (let s2 = setStyle p StyleTop (Px (top' it)) s1;
                    s3 = setStyle p StyleLeft (Px (left it)) s2;
                    s4 = setStyle p StyleWidth (Px (width it)) s3;
                    s5 = setStyle p StyleHeight (Px (height it)) s4;
                    s6 = setStyle (mediaWrapper it) StyleTop (Px (Some (- 1 * parallaxOffset))) s5;
                    s7 = loadImage (mediaElement it) s6
                in Done (classListAdd (mediaWrapper it) ''loaded'' s7))))"

text \<open>The branch taken when parallax is off (lines 281 to 304).\<close>

definition syncDisabled :: "nat \<Rightarrow> state \<Rightarrow> state outcome" where
  "syncDisabled i s =
    (let it = matrix s ! i
     in case (if parentNode s (mediaWrapper it) \<noteq> Some (originalNode it)
              then appendChild (originalNode it) (mediaWrapper it) s else Done s) of
          Threw x t \<Rightarrow> Threw x t
        | Done s1 \<Rightarrow>
           (let s2 = (case parallaxItem it of
                        None \<Rightarrow> s1
                      | Some p \<Rightarrow> setStyle p StyleHeight Empty (setStyle p StyleWidth Empty
                                   (setStyle p StyleLeft Empty (setStyle p StyleTop Empty s1))));
                s3 = setStyle (mediaWrapper it) StyleTop Empty s2
            in Done (setTransform (mediaElement it) Empty s3)))"

text \<open>
  The callback of \<^verbatim>\<open>matrix.filter\<close> in \<^verbatim>\<open>syncParallax\<close>, for the item at index \<open>i\<close>; the
  boolean is what the callback returns.
\<close>

definition syncItem :: "env \<Rightarrow> node \<Rightarrow> node option \<Rightarrow> nat \<Rightarrow> state \<Rightarrow> (bool \<times> state) outcome" where
  "syncItem e element parallaxHost i s =
    (let it = matrix s ! i
     in if \<not> contains s element (originalNode it) then
          (case parallaxHost of
             None \<Rightarrow> Threw TypeError s
           | Some host \<Rightarrow>
              (case parallaxItem it of
                 None \<Rightarrow> Done (False, s)
               | Some p \<Rightarrow>
                  if p \<in> set (childNodes s host)
                  then (case removeChild host p s of
                          Threw x t \<Rightarrow> Threw x t
                        | Done s1 \<Rightarrow> Done (False, s1))
                  else Done (False, s)))
        else
          (case (if isParallaxEnabled e s then syncEnabled parallaxHost i s else syncDisabled i s) of
             Threw x t \<Rightarrow> Threw x t
           | Done s1 \<Rightarrow>
              Done (True, classListAdd (mediaWrapper it) ''loaded'' (loadImage (mediaElement it) s1))))"

text \<open>
  \<^verbatim>\<open>Array.prototype.filter\<close> over the indices of the matrix: it returns the kept indices as a
  new array and leaves the array it was called on as it is.
\<close>

fun filterIdx ::
  "(nat \<Rightarrow> state \<Rightarrow> (bool \<times> state) outcome) \<Rightarrow> nat list \<Rightarrow> state \<Rightarrow> (nat list \<times> state) outcome" where
  "filterIdx f [] s = Done ([], s)"
| "filterIdx f (i # rest) s =
    (case f i s of
       Threw x t \<Rightarrow> Threw x t
     | Done r \<Rightarrow>
        (case filterIdx f rest (snd r) of
           Threw x t \<Rightarrow> Threw x t
         | Done r' \<Rightarrow> Done (if fst r then i # fst r' else fst r', snd r')))"

text \<open>
  \<^verbatim>\<open>syncParallax\<close>. The array that \<^verbatim>\<open>matrix.filter\<close> returns is not assigned to anything, so
  \<^verbatim>\<open>matrix\<close> keeps every item.
\<close>

definition syncParallax :: "env \<Rightarrow> node \<Rightarrow> jsval \<Rightarrow> state \<Rightarrow> state outcome" where
  "syncParallax e element force s =
    (let parallaxHost = querySelector s (body e) (HasAttr ''data-parallax-host'');
         scrollTop = pageScrollTop e;
         s1 = s\<lparr>windowHeight := Some (innerHeight e)\<rparr>;
         refreshed = updateAllMatrixItems e (matrix s1);
         hasUpdated = fst refreshed;
         s2 = s1\<lparr>matrix := snd refreshed\<rparr>
     in if \<not> hasUpdated \<and> force = JBool False then Done s2
        else (case filterIdx (syncItem e element parallaxHost) [0..<length (matrix s2)] s2 of
                Threw x t \<Rightarrow> Threw x t
              | Done r \<Rightarrow>
                 if isParallaxEnabled e (snd r) then scroll e scrollTop (snd r) else Done (snd r)))"

section \<open>Lifecycle Binder\<close>

definition scrollCallback :: "env \<Rightarrow> state \<Rightarrow> state outcome" where
  "scrollCallback e s =
    (case scroll e (pageYOffset e) s of
       Threw x t \<Rightarrow> Threw x t
     | Done s1 \<Rightarrow> Done (if scrolling s1 then s1\<lparr>rafQueue := rafQueue s1 @ [ScrollCallbackCb]\<rparr> else s1))"

text \<open>\<^verbatim>\<open>handleScroll\<close>; a timer handle is truthy when it is not zero.\<close>

definition handleScroll :: "env \<Rightarrow> state \<Rightarrow> state outcome" where
  "handleScroll e s =
    (case (if \<not> scrolling s
           then scrollCallback e
                  (setStyle (documentElement e) PointerEvents (Keyword ''none'') (s\<lparr>scrolling := True\<rparr>))
           else Done s) of
       Threw x t \<Rightarrow> Threw x t
     | Done s1 \<Rightarrow>
        (let s2 = (case scrollTimeout s1 of
                     None \<Rightarrow> s1
                   | Some h \<Rightarrow> if h \<noteq> 0 then s1\<lparr>timers := filter (\<lambda>t. fst t \<noteq> h) (timers s1)\<rparr> else s1)
         in Done (s2\<lparr>timers := timers s2 @ [(nextTimerId s2, ScrollTimeoutCb)],
                     scrollTimeout := Some (nextTimerId s2),
                     nextTimerId := Suc (nextTimerId s2)\<rparr>)))"

text \<open>The function passed to \<^verbatim>\<open>setTimeout\<close> in \<^verbatim>\<open>handleScroll\<close>.\<close>

definition scrollTimeoutFired :: "env \<Rightarrow> state \<Rightarrow> state" where
  "scrollTimeoutFired e s =
    setStyle (documentElement e) PointerEvents (Keyword ''auto'') (s\<lparr>scrolling := False\<rparr>)"

definition addEventListener :: "eventName \<Rightarrow> callback \<Rightarrow> state \<Rightarrow> state" where
  "addEventListener ev h s =
    (if (ev, h) \<in> set (listeners s) then s else s\<lparr>listeners := listeners s @ [(ev, h)]\<rparr>)"

definition removeEventListener :: "eventName \<Rightarrow> callback \<Rightarrow> state \<Rightarrow> state" where
  "removeEventListener ev h s = s\<lparr>listeners := filter (\<lambda>l. l \<noteq> (ev, h)) (listeners s)\<rparr>"

text \<open>
  Modelled from the spec: \<^verbatim>\<open>resizeEnd\<close> of \<^verbatim>\<open>../util\<close> is not among the sources; it is "a
  resize-debounce utility that invokes a callback after resize activity settles", so it
  keeps the callback it is given.
\<close>

definition resizeEnd :: "callback \<Rightarrow> state \<Rightarrow> state" where
  "resizeEnd cb s = s\<lparr>resizeEndCallbacks := resizeEndCallbacks s @ [cb]\<rparr>"

definition bindListeners :: "state \<Rightarrow> state" where
  "bindListeners s =
    (let s1 = addEventListener EvScroll HandleScroll s;
         s2 = resizeEnd SyncParallaxCb s1;
         s3 = addEventListener EvIndexEditEnabled HandleIndexEditEnabled s2;
         s4 = addEventListener EvIndexEditDisabled HandleIndexEditDisabled s3;
         s5 = addEventListener EvIndexEditDeleted HandleIndexEditDeleted s4;
         s6 = addEventListener EvIndexEditReorder HandleIndexEditReorder s5
     in s6\<lparr>tweakWatchers := tweakWatchers s6 @
            [([''tweak-overlay-parallax-enabled'', ''tweak-site-width-option'', ''tweak-site-width'',
               ''tweak-index-page-padding'', ''tweak-index-page-overlay-padding''], TweakWatchCb)]\<rparr>)"

text \<open>\<^verbatim>\<open>init\<close>, which the constructor \<^verbatim>\<open>Parallax(element)\<close> runs before it returns.\<close>

definition init :: "env \<Rightarrow> node \<Rightarrow> state \<Rightarrow> state outcome" where
  "init e element s =
    (case initParallax e element s of
       Threw x t \<Rightarrow> Threw x t
     | Done s1 \<Rightarrow>
        (let s2 = s1\<lparr>rafQueue := rafQueue s1 @ [SyncParallaxCb]\<rparr>;
             s3 = bindListeners s2
         in Done (s3\<lparr>darwin := DarwinInstance, darwinObserving := True\<rparr>)))"

definition destroy :: "state \<Rightarrow> state outcome" where
  "destroy s =
    (let s1 = (if darwin s = DarwinInstance
               then s\<lparr>darwinObserving := False, darwin := DarwinNull\<rparr> else s);
         s2 = removeEventListener EvScroll HandleScroll s1;
         s3 = removeEventListener EvIndexEditEnabled HandleIndexEditEnabled s2;
         s4 = removeEventListener EvIndexEditDisabled HandleIndexEditDisabled s3;
         s5 = removeEventListener EvIndexEditDeleted HandleIndexEditDeleted s4
     in Done (removeEventListener EvIndexEditReorder HandleIndexEditReorder s5))"

text \<open>
  What the browser, the resize utility, the mutation watcher or the configuration service
  runs when it calls one of the module's functions with the argument \<open>arg\<close>.
\<close>

definition invoke :: "env \<Rightarrow> node \<Rightarrow> callback \<Rightarrow> jsval \<Rightarrow> state \<Rightarrow> state outcome" where
  "invoke e element cb arg s =
    (case cb of
       SyncParallaxCb \<Rightarrow> syncParallax e element arg s
     | ScrollCallbackCb \<Rightarrow> scrollCallback e s
     | ScrollTimeoutCb \<Rightarrow> Done (scrollTimeoutFired e s)
     | HandleScroll \<Rightarrow> handleScroll e s
     | HandleIndexEditEnabled \<Rightarrow> syncParallax e element (JBool True) (s\<lparr>isEditingIndex := True\<rparr>)
     | HandleIndexEditDisabled \<Rightarrow> syncParallax e element (JBool True) (s\<lparr>isEditingIndex := False\<rparr>)
     | HandleIndexEditDeleted \<Rightarrow> syncParallax e element (JBool True) s
     | HandleIndexEditReorder \<Rightarrow> syncParallax e element (JBool True) s
     | TweakWatchCb \<Rightarrow> syncParallax e element (JBool True) s)"

section \<open>Where a media wrapper sits\<close>



section \<open>A page to run the module on\<close>

text \<open>
  The document element 0 holds the body 1, which holds the scan root 2 and the overlay host
  10. The root holds one original element 3 (id \<open>a\<close>) with its wrapper 4 and image 5; the
  host holds the slot 11 for that id.
\<close>

definition page :: state where
  "page = \<lparr>darwin = DarwinUndefined, scrolling = False, scrollTimeout = None, windowHeight = None,
     matrix = [], isEditingIndex = False,
     parentNode = (\<lambda>n. None)(1 := Some 0, 2 := Some 1, 3 := Some 2, 4 := Some 3, 5 := Some 4,
                                10 := Some 1, 11 := Some 10),
     childNodes = (\<lambda>n. [])(0 := [1], 1 := [2, 10], 2 := [3], 3 := [4], 4 := [5], 10 := [11]),
     tagName = (\<lambda>n. ''div'')(0 := ''html'', 1 := ''body'', 3 := ''section'', 5 := ''img''),
     classList = (\<lambda>n. []),
     attributes = (\<lambda>n. [])
       (3 := [(''data-parallax-original-element'', []), (''data-parallax-id'', ''a'')],
        4 := [(''data-parallax-image-wrapper'', [])],
        5 := [(''data-src'', ''x.jpg''), (''data-image-focal-point'', ''0.5,0.5'')],
        10 := [(''data-parallax-host'', [])],
        11 := [(''data-parallax-item'', []), (''data-parallax-id'', ''a'')]),
     depthBound = 8, styleWrites = [], imageLoads = [], listeners = [], rafQueue = [], timers = [],
     nextTimerId = 1, resizeEndCallbacks = [], tweakWatchers = [], darwinObserving = False\<rparr>"

text \<open>
  A viewport 800 high, scrolled to 450, with parallax switched on; every element is laid out
  1200 wide and 500 high with its top edge at page offset 1000.
\<close>

definition browser :: env where
  "browser = \<lparr>getBoundingClientRect =
       (\<lambda>n. \<lparr>rect_top = 550, rect_right = 1200, rect_bottom = 1050, rect_left = 0\<rparr>),
     offsetWidth = (\<lambda>n. 1200), offsetHeight = (\<lambda>n. 500),
     docScrollTop = 450, bodyScrollTop = 0, pageYOffset = 450, innerHeight = 800,
     tweakValue = (\<lambda>n. ''true''),
     parseFloat = (\<lambda>t. if t = ''0.5'' then Some (1 / 2) else None),
     body = 1, documentElement = 0\<rparr>"



text \<open>The page once the constructor \<^verbatim>\<open>Parallax(element)\<close> has run on the root 2.\<close>

definition constructed :: state where
  "constructed = finalState (init browser 2 page)"

text \<open>
  The page after the first animation frame has run the queued \<^verbatim>\<open>syncParallax\<close> with its time
  stamp: the wrapper 4 sits in the slot 11.
\<close>

definition relocated :: state where
  "relocated = (finalState (syncParallax browser 2 (JNum 16) constructed))\<lparr>rafQueue := []\<rparr>"


text \<open>
  The relocated page after the original element 3 was taken out of the root, and the browser
  as it then measures: a detached element has an empty rectangle.
\<close>

definition orphaned :: state where
  "orphaned = relocated\<lparr>childNodes := (childNodes relocated)(2 := []),
                         parentNode := (parentNode relocated)(3 := None)\<rparr>"

definition browserDetached :: env where
  "browserDetached = browser\<lparr>getBoundingClientRect :=
       (\<lambda>n. \<lparr>rect_top = 0, rect_right = 0, rect_bottom = 0, rect_left = 0\<rparr>),
     offsetWidth := (\<lambda>n. 0), offsetHeight := (\<lambda>n. 0)\<rparr>"



text \<open>The relocated page during a scroll gesture: one scroll event has been handled.\<close>

definition scrollingPage :: state where
  "scrollingPage = finalState (handleScroll browser relocated)"




section \<open>Facts about the operations\<close>




lemma updateMatrixItem_unchanged:
  "\<not> fst (updateMatrixItem e it) \<Longrightarrow> snd (updateMatrixItem e it) = it"
  by (simp add: updateMatrixItem_def Let_def split: if_splits)

lemma updateAllMatrixItems_unchanged:
  "\<not> fst (updateAllMatrixItems e m) \<Longrightarrow> snd (updateAllMatrixItems e m) = m"
proof (induction m)
  case Nil
  then show ?case by simp
next
  case (Cons it m)
  from Cons.prems have a: "\<not> fst (updateMatrixItem e it)" and b: "\<not> fst (updateAllMatrixItems e m)"
    by (auto simp: Let_def split: prod.splits)
  from updateMatrixItem_unchanged [OF a] Cons.IH [OF b] show ?case
    by (auto simp: Let_def split: prod.splits)
qed

lemma updateAllMatrixItems_length:
  "length (snd (updateAllMatrixItems e m)) = length m"
  by (induction m) (auto simp: Let_def split: prod.splits)


section \<open>Geometry refresh\<close>



section \<open>Transform writes\<close>




text \<open>
  C7. While parallax is disabled (index editing is on, or the tweak is not \<^verbatim>\<open>'true'\<close>),
  \<^verbatim>\<open>scroll\<close> returns with the state as it was, for every scroll offset and every matrix: no
  style property of any element is assigned.
\<close>

theorem scroll_disabled:
  "isEditingIndex s \<or> tweakValue e ''tweak-overlay-parallax-enabled'' \<noteq> ''true''
   \<Longrightarrow> scroll e scrollTopArg s = Done s"
  by (auto simp: scroll_def isParallaxEnabled_def)

theorem scroll_disabled_witness:
  "isEditingIndex (relocated\<lparr>isEditingIndex := True\<rparr>)
   \<and> scroll browser 450 (relocated\<lparr>isEditingIndex := True\<rparr>) = Done (relocated\<lparr>isEditingIndex := True\<rparr>)"
  using scroll_disabled [of "relocated\<lparr>isEditingIndex := True\<rparr>" browser 450] by simp





section \<open>The short-circuit of synchronisation\<close>

text \<open>
  C9. When \<^verbatim>\<open>syncParallax\<close> is called with \<^verbatim>\<open>false\<close> and the batch refresh reports that no item
  changed, it returns a state that differs from the one it was given only in \<^verbatim>\<open>windowHeight\<close>:
  the DOM, the style assignments, the image loads and the matrix are as before.
\<close>

theorem syncParallax_idle:
  "\<not> fst (updateAllMatrixItems e (matrix s))
   \<Longrightarrow> syncParallax e element (JBool False) s = Done (s\<lparr>windowHeight := Some (innerHeight e)\<rparr>)"
  by (simp add: syncParallax_def Let_def updateAllMatrixItems_unchanged)

theorem syncParallax_idle_witness:
  "\<not> fst (updateAllMatrixItems browser (matrix relocated))
   \<and> syncParallax browser 2 (JBool False) relocated = Done (relocated\<lparr>windowHeight := Some 800\<rparr>)"
proof -
  have idle: "\<not> fst (updateAllMatrixItems browser (matrix relocated))" by code_simp
  from syncParallax_idle [OF idle, of 2] idle show ?thesis by (simp add: browser_def)
qed

text \<open>
  C10. The short-circuit is taken only for an argument that is the boolean \<^verbatim>\<open>false\<close>. For every
  other argument (none, as \<^verbatim>\<open>undefined\<close>, or the value the animation frame, the resize utility
  or the mutation watcher passes when it calls \<^verbatim>\<open>syncParallax\<close> itself) the call does what the
  forced call does: the filter callback runs on every index of the matrix, whatever the
  refresh reported, and \<^verbatim>\<open>scroll\<close> follows when parallax is enabled.
\<close>

theorem syncParallax_force_not_false:
  "force \<noteq> JBool False \<Longrightarrow>
     syncParallax e element force s = syncParallax e element (JBool True) s
   \<and> invoke e element SyncParallaxCb force s = syncParallax e element (JBool True) s
   \<and> syncParallax e element force s =
       (case filterIdx (syncItem e element (querySelector s (body e) (HasAttr ''data-parallax-host'')))
               [0..<length (matrix s)]
               (s\<lparr>windowHeight := Some (innerHeight e),
                  matrix := snd (updateAllMatrixItems e (matrix s))\<rparr>) of
          Threw x t \<Rightarrow> Threw x t
        | Done r \<Rightarrow> if isParallaxEnabled e (snd r) then scroll e (pageScrollTop e) (snd r)
                    else Done (snd r))"
  by (simp add: syncParallax_def invoke_def Let_def updateAllMatrixItems_length querySelector_def)

theorem syncParallax_force_not_false_witness:
  "JUndefined \<noteq> JBool False \<and> JNum 16 \<noteq> JBool False
   \<and> \<not> fst (updateAllMatrixItems browser (matrix relocated))
   \<and> syncParallax browser 2 JUndefined relocated = syncParallax browser 2 (JBool True) relocated
   \<and> invoke browser 2 SyncParallaxCb (JNum 16) relocated = syncParallax browser 2 (JBool True) relocated
   \<and> (case syncParallax browser 2 (JBool True) relocated of
         Done t \<Rightarrow> imageLoads t = imageLoads relocated @ [5, 5]
           \<and> length (styleWrites t) = length (styleWrites relocated) + 11
       | Threw x t \<Rightarrow> False)"
proof -
  have a: "JUndefined \<noteq> JBool False" and b: "JNum 16 \<noteq> JBool False" by simp_all
  have idle: "\<not> fst (updateAllMatrixItems browser (matrix relocated))" by code_simp
  have ran: "(case syncParallax browser 2 (JBool True) relocated of
         Done t \<Rightarrow> imageLoads t = imageLoads relocated @ [5, 5]
           \<and> length (styleWrites t) = length (styleWrites relocated) + 11
       | Threw x t \<Rightarrow> False)" by code_simp
  from syncParallax_force_not_false [OF a, of browser 2 relocated]
    syncParallax_force_not_false [OF b, of browser 2 relocated] idle ran
  show ?thesis by simp
qed


section \<open>Teardown\<close>

text \<open>
  C3, as the code has it. \<^verbatim>\<open>destroy\<close> returns, and a second call returns too and changes
  nothing. It stops the mutation watcher and releases its handle, and removes the scroll
  listener and the four index-edit listeners. The queued animation-frame callbacks, the
  pending scroll timer, the callback given to the resize utility and the tweak watcher are
  left as they were.
\<close>

theorem destroy_twice:
  "\<exists>s1. destroy s = Done s1 \<and> destroy s1 = Done s1
     \<and> darwin s1 \<noteq> DarwinInstance
     \<and> (darwin s = DarwinInstance \<longrightarrow> \<not> darwinObserving s1)
     \<and> listeners s1 = filter (\<lambda>l. l \<notin> {(EvScroll, HandleScroll),
           (EvIndexEditEnabled, HandleIndexEditEnabled), (EvIndexEditDisabled, HandleIndexEditDisabled),
           (EvIndexEditDeleted, HandleIndexEditDeleted), (EvIndexEditReorder, HandleIndexEditReorder)})
         (listeners s)
     \<and> rafQueue s1 = rafQueue s \<and> timers s1 = timers s \<and> scrollTimeout s1 = scrollTimeout s
     \<and> scrolling s1 = scrolling s \<and> resizeEndCallbacks s1 = resizeEndCallbacks s
     \<and> tweakWatchers s1 = tweakWatchers s \<and> matrix s1 = matrix s \<and> styleWrites s1 = styleWrites s"
  by (auto simp: destroy_def removeEventListener_def Let_def intro!: filter_cong)

theorem destroy_twice_witness:
  "darwin constructed = DarwinInstance
   \<and> (\<exists>s1. destroy constructed = Done s1 \<and> destroy s1 = Done s1 \<and> \<not> darwinObserving s1
          \<and> listeners s1 = [] \<and> rafQueue s1 = [SyncParallaxCb])"
proof -
  have d: "darwin constructed = DarwinInstance" by code_simp
  have l: "listeners constructed = [(EvScroll, HandleScroll),
      (EvIndexEditEnabled, HandleIndexEditEnabled), (EvIndexEditDisabled, HandleIndexEditDisabled),
      (EvIndexEditDeleted, HandleIndexEditDeleted), (EvIndexEditReorder, HandleIndexEditReorder)]"
    by code_simp
  have r: "rafQueue constructed = [SyncParallaxCb]" by code_simp
  from destroy_twice [of constructed] d l r show ?thesis by auto
qed

text \<open>
  After one handled scroll event, \<^verbatim>\<open>destroy\<close> leaves the scroll timer, the queued
  \<^verbatim>\<open>scrollCallback\<close>, the resize callback and the tweak watcher in place, and the queued
  callback then writes six transform properties.
\<close>

theorem destroy_leaves_callbacks_counterexample:
  "returned (destroy scrollingPage)
   \<and> timers (finalState (destroy scrollingPage)) = [(1, ScrollTimeoutCb)]
   \<and> rafQueue (finalState (destroy scrollingPage)) = [ScrollCallbackCb]
   \<and> resizeEndCallbacks (finalState (destroy scrollingPage)) = [SyncParallaxCb]
   \<and> map snd (tweakWatchers (finalState (destroy scrollingPage))) = [TweakWatchCb]
   \<and> returned (invoke browser 2 ScrollCallbackCb JUndefined (finalState (destroy scrollingPage)))
   \<and> length (styleWrites (finalState
         (invoke browser 2 ScrollCallbackCb JUndefined (finalState (destroy scrollingPage)))))
       = length (styleWrites (finalState (destroy scrollingPage))) + 6"
  by code_simp

section \<open>What throws\<close>














section \<open>An original element that left the root\<close>

text \<open>
  C1, evaluated. The original element 3 is no longer inside the root 2. The forced
  synchronisation returns and detaches the overlay slot 11 from the host 10, but the matrix
  still holds the item, the \<^verbatim>\<open>scroll\<close> at the end of that very call assigns the three transform
  properties of the item's overlay node, and so does the next call of \<^verbatim>\<open>scroll\<close>.
\<close>

theorem syncParallax_keeps_removed_item:
  "\<not> contains orphaned 2 3
   \<and> returned (syncParallax browserDetached 2 (JBool True) orphaned)
   \<and> childNodes (finalState (syncParallax browserDetached 2 (JBool True) orphaned)) 10 = []
   \<and> parentNode (finalState (syncParallax browserDetached 2 (JBool True) orphaned)) 11 = None
   \<and> map originalNode (matrix (finalState (syncParallax browserDetached 2 (JBool True) orphaned))) = [3]
   \<and> drop (length (styleWrites orphaned))
        (styleWrites (finalState (syncParallax browserDetached 2 (JBool True) orphaned)))
       = [(11, WebkitTransform, Translate3d (Some 0)), (11, MsTransform, Translate3d (Some 0)),
          (11, Transform, Translate3d (Some 0))]
   \<and> drop (length (styleWrites (finalState (syncParallax browserDetached 2 (JBool True) orphaned))))
        (styleWrites (finalState (scroll browserDetached 450
           (finalState (syncParallax browserDetached 2 (JBool True) orphaned)))))
       = [(11, WebkitTransform, Translate3d (Some 0)), (11, MsTransform, Translate3d (Some 0)),
          (11, Transform, Translate3d (Some 0))]"
  by code_simp

section \<open>The placement of the media wrappers\<close>

































end
